theory Spec2Isabelle
  imports Main
begin

section \<open>JavaScript string operations used by the extension\<close>

text \<open>
  A JavaScript string is modelled as a \<^typ>\<open>string\<close>: a list of code units, of which
  \<^typ>\<open>char\<close> covers the ones below 256. The white space that \<^verbatim>\<open>trim\<close> removes in that
  range is TAB, LF, VT, FF, CR, SPACE and NBSP.
\<close>

definition isWhiteSpace :: "char \<Rightarrow> bool" where
  "isWhiteSpace c =
     (c \<in> {CHR 0x09, CHR 0x0A, CHR 0x0B, CHR 0x0C, CHR 0x0D, CHR 0x20, CHR 0xA0})"

definition trim :: "string \<Rightarrow> string" where
  "trim s = rev (dropWhile isWhiteSpace (rev (dropWhile isWhiteSpace s)))"

fun startsWith :: "string \<Rightarrow> string \<Rightarrow> bool" where
  "startsWith s [] = True"
| "startsWith [] (p # ps) = False"
| "startsWith (c # cs) (p # ps) = (c = p \<and> startsWith cs ps)"

fun includes_str :: "string \<Rightarrow> string \<Rightarrow> bool" where
  "includes_str [] p = startsWith [] p"
| "includes_str (c # cs) p = (startsWith (c # cs) p \<or> includes_str cs p)"

text \<open>
  \<^verbatim>\<open>String.prototype.replace\<close> with a string pattern: the leftmost occurrence of the
  pattern, and only that one, is replaced. The replacement text is taken literally (the
  only replacement the extension passes has no \<^verbatim>\<open>$\<close> in it).
\<close>

fun replace :: "string \<Rightarrow> string \<Rightarrow> string \<Rightarrow> string" where
  "replace [] pat rep = (if pat = [] then rep else [])"
| "replace (c # cs) pat rep =
     (if startsWith (c # cs) pat then rep @ drop (length pat) (c # cs)
      else c # replace cs pat rep)"

text \<open>\<^verbatim>\<open>a || b\<close> on strings: the empty string is falsy.\<close>

definition or_else :: "string \<Rightarrow> string \<Rightarrow> string" where
  "or_else a b = (if a \<noteq> [] then a else b)"

text \<open>\<^verbatim>\<open>get(key) || dflt\<close>: an unset key reads as \<^verbatim>\<open>undefined\<close>, which is falsy too.\<close>

definition get_or :: "string option \<Rightarrow> string \<Rightarrow> string" where
  "get_or v dflt = (case v of None \<Rightarrow> dflt | Some s \<Rightarrow> or_else s dflt)"

fun join :: "string \<Rightarrow> string list \<Rightarrow> string" where
  "join sep [] = []"
| "join sep [l] = l"
| "join sep (l # ls) = l @ sep @ join sep ls"

section \<open>Configuration\<close>

record config =
  executionDelay :: nat
  phpPath :: string
  inlineColor :: string

definition defaultConfig :: config where
  "defaultConfig = \<lparr>executionDelay = 300, phpPath = ''php'', inlineColor = ''grey''\<rparr>"

text \<open>
  The host settings store, section \<^verbatim>\<open>quickphp\<close>: a key that the user has not set reads
  as \<^verbatim>\<open>undefined\<close>.
\<close>

record settings =
  setting_executionDelay :: "nat option"
  setting_phpPath :: "string option"
  setting_inlineColor :: "string option"

section \<open>The host: documents, editors, decorations, timers, processes\<close>

type_synonym handle = nat
type_synonym timer_id = nat
type_synonym editor_id = nat
type_synonym doc_id = nat
type_synonym pid = nat

record document =
  fsPath :: string
  isUntitled :: bool
  doc_lines :: "string list"
  eol :: string

text \<open>
  Of an editor the extension reads its document, the line of the cursor
  (\<^verbatim>\<open>selection.active.line\<close>) and the text of the selection
  (\<^verbatim>\<open>document.getText(selection)\<close>, as the host returns it).
\<close>

record editor =
  doc :: doc_id
  active_line :: nat
  selection_text :: string

record decoration =
  dec_range :: "nat \<times> nat \<times> nat \<times> nat"
  contentText :: string
  color :: string

datatype error = IllegalArgument

datatype effect =
    WriteFile string string
  | Exec string
  | Unlink string
  | ShowErrorMessage string
  | ShowInformationMessage string
  | Uncaught error

text \<open>
  What the completion callback of a spawned interpreter has captured: for live mode the
  editor, the target line, whether a temporary file was written, and the file path; for
  block mode the editor and the temporary file.
\<close>

datatype proc =
    LiveProc editor_id nat bool string
  | BlockProc editor_id string

text \<open>
  The three module-level variables of the extension, followed by the state of the host
  that the extension reads and writes. \<open>live_types\<close> are the decoration types created
  and not yet disposed, \<open>applied\<close> what \<^verbatim>\<open>setDecorations\<close> last put on each editor
  for each of them; \<open>timers\<close> are the pending timers with their delay and the editor
  their callback has captured; \<open>procs\<close> the interpreter processes in flight;
  \<open>effects\<close> the log of file writes, process spawns, deletions and messages.
\<close>

record world =
  currentDecorationType :: "handle option"
  errorDecorationType :: "handle option"
  timeout :: "timer_id option"
  live_types :: "handle list"
  applied :: "handle \<Rightarrow> editor_id \<Rightarrow> decoration list"
  next_handle :: handle
  timers :: "(timer_id \<times> nat \<times> editor_id) list"
  next_timer :: timer_id
  procs :: "(pid \<times> proc) list"
  next_pid :: pid
  effects :: "effect list"
  documents :: "doc_id \<Rightarrow> document"
  editors :: "editor_id \<Rightarrow> editor"
  activeTextEditor :: "editor_id option"
  store :: settings
  dirname :: string
  sep :: string

definition init_world ::
  "(doc_id \<Rightarrow> document) \<Rightarrow> (editor_id \<Rightarrow> editor) \<Rightarrow> editor_id option \<Rightarrow> settings \<Rightarrow>
   string \<Rightarrow> string \<Rightarrow> world" where
  "init_world ds es a st dir sp =
     \<lparr>currentDecorationType = None, errorDecorationType = None, timeout = None,
      live_types = [], applied = (\<lambda>_ _. []), next_handle = 0,
      timers = [], next_timer = 0, procs = [], next_pid = 0, effects = [],
      documents = ds, editors = es, activeTextEditor = a, store = st,
      dirname = dir, sep = sp\<rparr>"

subsection \<open>Host primitives\<close>

definition document_of :: "world \<Rightarrow> editor_id \<Rightarrow> document" where
  "document_of w e = documents w (doc (editors w e))"

definition getText :: "document \<Rightarrow> string" where
  "getText d = join (eol d) (doc_lines d)"

text \<open>\<^verbatim>\<open>lineAt\<close> raises on a line number that is not a line of the document.\<close>

definition lineAt :: "document \<Rightarrow> nat \<Rightarrow> error + string" where
  "lineAt d n = (if n < length (doc_lines d) then Inr (doc_lines d ! n) else Inl IllegalArgument)"

text \<open>
  \<^verbatim>\<open>path.join(__dirname, name)\<close> for the normalised directory of the extension and a
  single file name, with the separator of the platform.
\<close>

definition path_join :: "world \<Rightarrow> string \<Rightarrow> string" where
  "path_join w name = dirname w @ sep w @ name"

definition createTextEditorDecorationType :: "world \<Rightarrow> handle \<times> world" where
  "createTextEditorDecorationType w =
     (next_handle w,
      w\<lparr>live_types := next_handle w # live_types w,
        applied := (applied w)(next_handle w := (\<lambda>_. [])),
        next_handle := Suc (next_handle w)\<rparr>)"

definition setDecorations :: "editor_id \<Rightarrow> handle \<Rightarrow> decoration list \<Rightarrow> world \<Rightarrow> world" where
  "setDecorations e h ds w =
     (if h \<in> set (live_types w) then w\<lparr>applied := (applied w)(h := (applied w h)(e := ds))\<rparr>
      else w)"

definition dispose :: "handle \<Rightarrow> world \<Rightarrow> world" where
  "dispose h w =
     w\<lparr>live_types := removeAll h (live_types w), applied := (applied w)(h := (\<lambda>_. []))\<rparr>"

definition clearTimeout :: "timer_id option \<Rightarrow> world \<Rightarrow> world" where
  "clearTimeout t w =
     (case t of None \<Rightarrow> w
      | Some i \<Rightarrow> w\<lparr>timers := filter (\<lambda>x. fst x \<noteq> i) (timers w)\<rparr>)"

definition setTimeout :: "editor_id \<Rightarrow> nat \<Rightarrow> world \<Rightarrow> timer_id \<times> world" where
  "setTimeout e delay w =
     (next_timer w,
      w\<lparr>timers := timers w @ [(next_timer w, delay, e)], next_timer := Suc (next_timer w)\<rparr>)"

definition log_effect :: "effect \<Rightarrow> world \<Rightarrow> world" where
  "log_effect x w = w\<lparr>effects := effects w @ [x]\<rparr>"

definition exec :: "string \<Rightarrow> proc \<Rightarrow> world \<Rightarrow> world" where
  "exec cmd p w =
     (log_effect (Exec cmd) w)\<lparr>procs := procs w @ [(next_pid w, p)], next_pid := Suc (next_pid w)\<rparr>"

text \<open>The decorations an editor shows: those applied to it for the live decoration types.\<close>

definition visible :: "world \<Rightarrow> editor_id \<Rightarrow> decoration list" where
  "visible w e = concat (map (\<lambda>h. applied w h e) (live_types w))"

section \<open>The extension\<close>

definition command_line :: "string \<Rightarrow> string \<Rightarrow> string" where
  "command_line php file = php @ [CHR 0x20, CHR 0x22] @ file @ [CHR 0x22]"

definition clearOutput :: "editor_id \<Rightarrow> world \<Rightarrow> world" where
  "clearOutput e w =
     (let w1 = (case currentDecorationType w of None \<Rightarrow> w
                | Some h \<Rightarrow> (dispose h (setDecorations e h [] w))\<lparr>currentDecorationType := None\<rparr>)
      in case errorDecorationType w1 of None \<Rightarrow> w1
         | Some h \<Rightarrow> (dispose h (setDecorations e h [] w1))\<lparr>errorDecorationType := None\<rparr>)"

definition formattedOutput :: "string \<Rightarrow> string \<Rightarrow> bool \<Rightarrow> string" where
  "formattedOutput output executionTime isError =
     (if isError then ''Error: '' @ output @ '' (Execution Time: '' @ executionTime @ ''s)''
      else output @ '' (Execution Time: '' @ executionTime @ ''s)'')"

definition displayInlineOutput ::
  "string \<Rightarrow> editor_id \<Rightarrow> nat \<Rightarrow> string \<Rightarrow> bool \<Rightarrow> world \<Rightarrow> error \<times> world + world" where
  "displayInlineOutput output e currentLine executionTime isError w =
     (if trim output = [] then Inr w
      else
        let w1 = clearOutput e w;
            col = (if isError then ''red''
                   else get_or (setting_inlineColor (store w1)) (inlineColor defaultConfig))
        in case lineAt (document_of w1 e) currentLine of
             Inl err \<Rightarrow> Inl (err, w1)
           | Inr targetLineText \<Rightarrow>
               let d = \<lparr>dec_range = (currentLine, length targetLineText,
                                     currentLine, length targetLineText),
                        contentText = '' // '' @ formattedOutput output executionTime isError,
                        color = col\<rparr>;
                   (h, w2) = createTextEditorDecorationType w1;
                   w3 = w2\<lparr>currentDecorationType := Some h\<rparr>
               in Inr (setDecorations e h [d] w3))"

definition runPHPCode :: "string \<Rightarrow> editor_id \<Rightarrow> nat \<Rightarrow> world \<Rightarrow> world" where
  "runPHPCode code e currentLine w =
     (let d = document_of w e;
          useTemp = (fsPath d = [] \<or> isUntitled d);
          filePath = (if useTemp then path_join w ''quickphp.php'' else fsPath d);
          w1 = (if useTemp
                then log_effect (WriteFile filePath
                       (''<?php'' @ [CHR 0x0A] @ code @ [CHR 0x0A] @ ''?>'')) w
                else w);
          php = get_or (setting_phpPath (store w1)) ''php''
      in exec (command_line php filePath) (LiveProc e currentLine useTemp filePath) w1)"

text \<open>
  The message of a failed live execution: the trimmed standard error, or else the message
  of the spawn error, or else a fixed text; with the path of the temporary file replaced
  when one was used.
\<close>

definition errorMessage :: "bool \<Rightarrow> string \<Rightarrow> string option \<Rightarrow> string \<Rightarrow> string" where
  "errorMessage isTempFile filePath err stderr =
     (let m = or_else (trim stderr) (case err of Some msg \<Rightarrow> msg | None \<Rightarrow> ''Unknown error'')
      in if isTempFile then replace m filePath ''Current File'' else m)"

text \<open>
  The callback of \<^verbatim>\<open>exec\<close> in \<open>runPHPCode\<close>. The elapsed time is the text that
  \<^verbatim>\<open>toFixed(2)\<close> gives for the seconds between spawn and completion: floating-point
  arithmetic on the clock of the host, taken here as it arrives. The four
  \<^verbatim>\<open>console.log\<close> lines write to the developer console only and are left out.
\<close>

definition live_callback ::
  "editor_id \<Rightarrow> nat \<Rightarrow> bool \<Rightarrow> string \<Rightarrow> string option \<Rightarrow> string \<Rightarrow> string \<Rightarrow> string \<Rightarrow>
   world \<Rightarrow> error \<times> world + world" where
  "live_callback e currentLine isTempFile filePath err stdout stderr executionTime w =
     (let r =
        (if err \<noteq> None \<or> stderr \<noteq> [] then
           let w1 = clearOutput e w
           in displayInlineOutput (''Error: '' @ errorMessage isTempFile filePath err stderr)
                e currentLine executionTime True w1
         else
           displayInlineOutput (trim stdout) e currentLine executionTime False (clearOutput e w))
      in case r of
           Inl x \<Rightarrow> Inl x
         | Inr w2 \<Rightarrow> Inr (if isTempFile then log_effect (Unlink filePath) w2 else w2))"

definition trigger :: "string \<Rightarrow> bool" where
  "trigger lineText =
     (let currentLineText = trim lineText
      in startsWith currentLineText ''echo '' \<or> includes_str currentLineText ''print''
         \<or> includes_str currentLineText ''$'')"

text \<open>The callback that \<open>updateOutput\<close> hands to \<^verbatim>\<open>setTimeout\<close>.\<close>

definition timer_callback :: "editor_id \<Rightarrow> world \<Rightarrow> error \<times> world + world" where
  "timer_callback e w =
     (let currentLine = active_line (editors w e)
      in case lineAt (document_of w e) currentLine of
           Inl err \<Rightarrow> Inl (err, w)
         | Inr lineText \<Rightarrow>
             if trigger lineText then Inr (runPHPCode (getText (document_of w e)) e currentLine w)
             else Inr (clearOutput e w))"

definition updateOutput :: "editor_id \<Rightarrow> world \<Rightarrow> world" where
  "updateOutput e w =
     (let w1 = clearTimeout (timeout w) w;
          (t, w2) = setTimeout e (executionDelay defaultConfig) w1
      in w2\<lparr>timeout := Some t\<rparr>)"

definition runSelectedBlock :: "editor_id \<Rightarrow> world \<Rightarrow> world" where
  "runSelectedBlock e w =
     (let selectedText = selection_text (editors w e)
      in if trim selectedText = []
         then log_effect (ShowErrorMessage ''No PHP code selected to execute.'') w
         else
           let tempFilePath = path_join w ''quickphp_block.php'';
               w1 = log_effect (WriteFile tempFilePath selectedText) w;
               php = get_or (setting_phpPath (store w1)) (phpPath defaultConfig)
           in exec (command_line php tempFilePath) (BlockProc e tempFilePath) w1)"

text \<open>The callback of \<^verbatim>\<open>exec\<close> in \<open>runSelectedBlock\<close>.\<close>

definition block_callback ::
  "editor_id \<Rightarrow> string \<Rightarrow> string option \<Rightarrow> string \<Rightarrow> string \<Rightarrow> world \<Rightarrow> world" where
  "block_callback e tempFilePath err stdout stderr w =
     (let w1 =
        (if err \<noteq> None \<or> stderr \<noteq> [] then
           log_effect (ShowErrorMessage
             (or_else (trim stderr) (case err of Some m \<Rightarrow> m | None \<Rightarrow> ''Unknown error'')))
             (clearOutput e w)
         else log_effect (ShowInformationMessage (trim stdout)) w)
      in log_effect (Unlink tempFilePath) w1)"

subsection \<open>The handlers registered by \<open>activate\<close>, and the event loop\<close>

definition onDidChangeTextDocument :: "doc_id \<Rightarrow> world \<Rightarrow> world" where
  "onDidChangeTextDocument d w =
     (case activeTextEditor w of
        None \<Rightarrow> w
      | Some e \<Rightarrow> if d = doc (editors w e) then updateOutput e w else w)"

definition onDidChangeTextEditorSelection :: "editor_id \<Rightarrow> world \<Rightarrow> world" where
  "onDidChangeTextEditorSelection e w = updateOutput e w"

definition runBlock :: "world \<Rightarrow> world" where
  "runBlock w = (case activeTextEditor w of None \<Rightarrow> w | Some e \<Rightarrow> runSelectedBlock e w)"

text \<open>
  What the host does: a document changes, a selection changes, the active editor
  changes, the block command is invoked, a pending timer fires, an interpreter process
  completes (with its error message if any, its output, and the elapsed time as
  formatted for live mode). An exception that leaves a callback is caught by the host;
  the state is the one at the throw. \<open>deactivate\<close> ends the run, after which no handler
  is called any more; it is not an event of the loop.
\<close>

datatype event =
    TextChange doc_id "string list"
  | SelectionChange editor_id nat string
  | ActiveEditorChange "editor_id option"
  | RunBlockCommand
  | TimerFire timer_id
  | ExecDone pid "string option" string string string

definition settle :: "error \<times> world + world \<Rightarrow> world" where
  "settle r = (case r of Inl (err, w) \<Rightarrow> log_effect (Uncaught err) w | Inr w \<Rightarrow> w)"

fun step :: "event \<Rightarrow> world \<Rightarrow> world" where
  "step (TextChange d ls) w =
     onDidChangeTextDocument d
       (w\<lparr>documents := (documents w)(d := (documents w d)\<lparr>doc_lines := ls\<rparr>)\<rparr>)"
| "step (SelectionChange e l s) w =
     onDidChangeTextEditorSelection e
       (w\<lparr>editors := (editors w)(e := (editors w e)\<lparr>active_line := l, selection_text := s\<rparr>)\<rparr>)"
| "step (ActiveEditorChange a) w = w\<lparr>activeTextEditor := a\<rparr>"
| "step RunBlockCommand w = runBlock w"
| "step (TimerFire t) w =
     (case map_of (timers w) t of
        None \<Rightarrow> w
      | Some (delay, e) \<Rightarrow>
          settle (timer_callback e (w\<lparr>timers := filter (\<lambda>x. fst x \<noteq> t) (timers w)\<rparr>)))"
| "step (ExecDone p err stdout stderr executionTime) w =
     (case map_of (procs w) p of
        None \<Rightarrow> w
      | Some pr \<Rightarrow>
          let w1 = w\<lparr>procs := filter (\<lambda>x. fst x \<noteq> p) (procs w)\<rparr>
          in (case pr of
                LiveProc e currentLine isTempFile filePath \<Rightarrow>
                  settle (live_callback e currentLine isTempFile filePath
                            err stdout stderr executionTime w1)
              | BlockProc e tempFilePath \<Rightarrow>
                  block_callback e tempFilePath err stdout stderr w1))"

fun run :: "event list \<Rightarrow> world \<Rightarrow> world" where
  "run [] w = w"
| "run (ev # evs) w = run evs (step ev w)"

section \<open>Invariants, and the states used as examples\<close>

text \<open>
  Every live decoration type is the one held in \<open>currentDecorationType\<close>; the variable
  \<open>errorDecorationType\<close> is never assigned; handles are issued in increasing order; a
  decoration type carries at most one decoration per editor.
\<close>

definition decoration_inv :: "world \<Rightarrow> bool" where
  "decoration_inv w =
     (live_types w = (case currentDecorationType w of None \<Rightarrow> [] | Some h \<Rightarrow> [h])
      \<and> errorDecorationType w = None
      \<and> (\<forall>h\<in>set (live_types w). h < next_handle w)
      \<and> (\<forall>h e. length (applied w h e) \<le> 1))"

text \<open>Every pending timer is the one whose id is held in \<open>timeout\<close>.\<close>

definition timer_inv :: "world \<Rightarrow> bool" where
  "timer_inv w = (\<forall>x\<in>set (timers w). timeout w = Some (fst x))"


text \<open>
  Document 0 is a saved file of three lines, document 1 an untitled buffer holding one
  \<^verbatim>\<open>echo\<close> statement, every other document an untitled buffer whose sole content is the
  line \<^verbatim>\<open>echo "Hello, QuickPHP!";\<close>. Editor \<open>e\<close> shows document \<open>e\<close>. The user has
  set \<^verbatim>\<open>quickphp.executionDelay\<close> to 1000.
\<close>

definition example_documents :: "doc_id \<Rightarrow> document" where
  "example_documents d =
     (if d = 0
      then \<lparr>fsPath = ''/home/u/a.php'', isUntitled = False,
            doc_lines = [''<?php'', ''echo $x;'', ''// nothing''], eol = [CHR 0x0A]\<rparr>
      else if d = 1
      then \<lparr>fsPath = ''Untitled-1'', isUntitled = True,
            doc_lines = [''echo 2;''], eol = [CHR 0x0A]\<rparr>
      else \<lparr>fsPath = ''Untitled-2'', isUntitled = True,
            doc_lines = [''echo '' @ [CHR 0x22] @ ''Hello, QuickPHP!'' @ [CHR 0x22] @ '';''],
            eol = [CHR 0x0A]\<rparr>)"

definition example_editors :: "editor_id \<Rightarrow> editor" where
  "example_editors e = \<lparr>doc = e, active_line = 0, selection_text = []\<rparr>"

definition example_world :: world where
  "example_world =
     init_world example_documents example_editors (Some 0)
       \<lparr>setting_executionDelay = Some 1000, setting_phpPath = None,
        setting_inlineColor = None\<rparr>
       ''/ext/dist'' ''/''"

text \<open>
  The state after the untitled buffer of editor 1 was evaluated with output \<^verbatim>\<open>2\<close>:
  editor 1 shows an annotation.
\<close>

definition annotated_world :: world where
  "annotated_world =
     run [SelectionChange 1 0 [], TimerFire 0, ExecDone 0 None ''2'' [] ''0.05'']
       example_world"

text \<open>
  States with an interpreter in flight: for the saved file of editor 0 with the cursor on
  its second line, for the untitled buffers of editors 1 and 2, and for the untitled
  buffer of editor 1 once more while its first annotation is still shown.
\<close>

definition pending_saved :: world where
  "pending_saved = run [SelectionChange 0 1 [], TimerFire 0] example_world"

definition pending_untitled :: world where
  "pending_untitled = run [SelectionChange 1 0 [], TimerFire 0] example_world"


definition pending_again :: world where
  "pending_again = run [SelectionChange 1 0 [], TimerFire 1] annotated_world"



text \<open>States in which editor 0 has a blank selection, and a selection of one statement.\<close>

definition blank_selection :: world where
  "blank_selection = step (SelectionChange 0 0 [CHR 0x20, CHR 0x09]) example_world"

definition block_selection :: world where
  "block_selection = step (SelectionChange 0 1 ''echo 1;'') example_world"

text \<open>
  The decoration that \<open>displayInlineOutput\<close> builds for a text, a line and an elapsed
  time.
\<close>

definition annotation :: "world \<Rightarrow> editor_id \<Rightarrow> nat \<Rightarrow> string \<Rightarrow> string \<Rightarrow> bool \<Rightarrow> decoration" where
  "annotation w e n output t b =
     \<lparr>dec_range = (n, length (doc_lines (document_of w e) ! n),
                   n, length (doc_lines (document_of w e) ! n)),
      contentText = '' // '' @ formattedOutput output t b,
      color = (if b then ''red''
               else get_or (setting_inlineColor (store w)) (inlineColor defaultConfig))\<rparr>"

section \<open>Strings\<close>


lemma startsWith_iff: "startsWith s p \<longleftrightarrow> (\<exists>r. s = p @ r)"
  by (induction s p rule: startsWith.induct) auto

lemma includes_str_iff: "includes_str s p \<longleftrightarrow> (\<exists>a b. s = a @ p @ b)"
proof (induction s)
  case Nil
  then show ?case by (cases p) auto
next
  case (Cons c cs)
  have "(\<exists>a b. c # cs = a @ p @ b) \<longleftrightarrow> (\<exists>b. c # cs = p @ b) \<or> (\<exists>a b. cs = a @ p @ b)"
  proof
    assume "\<exists>a b. c # cs = a @ p @ b"
    then obtain a b where ab: "c # cs = a @ p @ b" by blast
    show "(\<exists>b. c # cs = p @ b) \<or> (\<exists>a b. cs = a @ p @ b)"
    proof (cases a)
      case Nil
      with ab show ?thesis by auto
    next
      case (Cons x a')
      with ab have "cs = a' @ p @ b" by simp
      then show ?thesis by blast
    qed
  next
    assume "(\<exists>b. c # cs = p @ b) \<or> (\<exists>a b. cs = a @ p @ b)"
    then show "\<exists>a b. c # cs = a @ p @ b"
    proof
      assume "\<exists>b. c # cs = p @ b"
      then obtain b where "c # cs = [] @ p @ b" by auto
      then show ?thesis by blast
    next
      assume "\<exists>a b. cs = a @ p @ b"
      then obtain a b where "c # cs = (c # a) @ p @ b" by auto
      then show ?thesis by blast
    qed
  qed
  with Cons show ?case by (simp add: startsWith_iff)
qed

lemma includes_str_char: "includes_str s [c] \<longleftrightarrow> c \<in> set s"
  by (induction s) auto

lemma trim_empty_iff: "trim s = [] \<longleftrightarrow> (\<forall>c\<in>set s. isWhiteSpace c)"
proof -
  have "trim s = [] \<longleftrightarrow> (\<forall>c\<in>set (dropWhile isWhiteSpace s). isWhiteSpace c)"
    by (simp add: trim_def dropWhile_eq_Nil_conv)
  also have "\<dots> \<longleftrightarrow> dropWhile isWhiteSpace s = []"
    by (metis dropWhile_eq_Nil_conv dropWhile_idem)
  finally show ?thesis by (simp add: dropWhile_eq_Nil_conv)
qed


section \<open>Clearing the output\<close>

lemma clearOutput_frame:
  "procs (clearOutput e w) = procs w" "effects (clearOutput e w) = effects w"
  "timers (clearOutput e w) = timers w" "timeout (clearOutput e w) = timeout w"
  "documents (clearOutput e w) = documents w" "editors (clearOutput e w) = editors w"
  "store (clearOutput e w) = store w" "dirname (clearOutput e w) = dirname w"
  "sep (clearOutput e w) = sep w" "activeTextEditor (clearOutput e w) = activeTextEditor w"
  "next_handle (clearOutput e w) = next_handle w" "next_pid (clearOutput e w) = next_pid w"
  "next_timer (clearOutput e w) = next_timer w"
  by (simp_all add: clearOutput_def dispose_def setDecorations_def Let_def split: option.splits)

lemma clearOutput_handles:
  "currentDecorationType (clearOutput e w) = None" "errorDecorationType (clearOutput e w) = None"
  by (simp_all add: clearOutput_def dispose_def setDecorations_def Let_def split: option.splits)

lemma clearOutput_inv: "decoration_inv w \<Longrightarrow> decoration_inv (clearOutput e w)"
  by (auto simp add: decoration_inv_def clearOutput_def dispose_def setDecorations_def Let_def split: option.splits)

lemma clearOutput_live_inv: "decoration_inv w \<Longrightarrow> live_types (clearOutput e w) = []"
  by (auto simp add: decoration_inv_def clearOutput_def dispose_def setDecorations_def Let_def split: option.splits)

lemma document_of_clearOutput: "document_of (clearOutput e w) e' = document_of w e'"
  by (simp add: document_of_def clearOutput_frame)

lemma visible_clearOutput_inv: "decoration_inv w \<Longrightarrow> visible (clearOutput e w) e' = []"
  by (simp add: visible_def clearOutput_live_inv)

section \<open>Unfolding the model on concrete states\<close>

lemmas step_defs =
  onDidChangeTextDocument_def onDidChangeTextEditorSelection_def updateOutput_def
  clearTimeout_def setTimeout_def defaultConfig_def timer_callback_def lineAt_def
  document_of_def trigger_def trim_def isWhiteSpace_def runPHPCode_def getText_def
  path_join_def log_effect_def exec_def command_line_def get_or_def or_else_def
  live_callback_def errorMessage_def displayInlineOutput_def clearOutput_def dispose_def setDecorations_def
  createTextEditorDecorationType_def formattedOutput_def settle_def runBlock_def
  runSelectedBlock_def block_callback_def

lemmas example_defs =
  example_world_def init_world_def example_documents_def example_editors_def

lemma annotated_world_eq:
  "annotated_world =
     \<lparr>currentDecorationType = Some 0, errorDecorationType = None, timeout = Some 0,
      live_types = [0],
      applied = (\<lambda>h e. if h = 0 \<and> e = 1
                  then [\<lparr>dec_range = (0, 7, 0, 7),
                         contentText = '' // 2 (Execution Time: 0.05s)'',
                         color = ''grey''\<rparr>]
                  else []),
      next_handle = 1, timers = [], next_timer = 1, procs = [], next_pid = 1,
      effects = [WriteFile ''/ext/dist/quickphp.php'' (''<?php'' @ [CHR 0x0A] @ ''echo 2;'' @ [CHR 0x0A] @ ''?>''),
                 Exec (''php '' @ [CHR 0x22] @ ''/ext/dist/quickphp.php'' @ [CHR 0x22]),
                 Unlink ''/ext/dist/quickphp.php''],
      documents = example_documents, editors = (example_editors)(1 := \<lparr>doc = 1, active_line = 0, selection_text = []\<rparr>), activeTextEditor = Some 0,
      store = \<lparr>setting_executionDelay = Some 1000, setting_phpPath = None,
                setting_inlineColor = None\<rparr>,
      dirname = ''/ext/dist'', sep = ''/''\<rparr>"
  by (simp add: annotated_world_def example_defs step_defs Let_def fun_eq_iff)

section \<open>Trigger detection\<close>

text \<open>
  Claim C1. The trigger heuristic holds of a line exactly when the trimmed line starts
  with \<^verbatim>\<open>echo\<close> and a space, or contains \<^verbatim>\<open>print\<close>, or contains the character \<^verbatim>\<open>$\<close>.
  When it does not hold of the line at the cursor, the timer callback only clears the
  output: no process is spawned, nothing is written, both decoration variables are
  reset and no editor shows an annotation any more.
\<close>
theorem trigger_heuristic:
  "(trigger l \<longleftrightarrow>
      (\<exists>r. trim l = ''echo '' @ r) \<or> (\<exists>a b. trim l = a @ ''print'' @ b)
      \<or> CHR ''$'' \<in> set (trim l))
   \<and> (lineAt (document_of w e) (active_line (editors w e)) = Inr l \<and> \<not> trigger l \<longrightarrow>
        timer_callback e w = Inr (clearOutput e w)
        \<and> procs (clearOutput e w) = procs w
        \<and> effects (clearOutput e w) = effects w
        \<and> currentDecorationType (clearOutput e w) = None
        \<and> errorDecorationType (clearOutput e w) = None
        \<and> (decoration_inv w \<longrightarrow> (\<forall>e'. visible (clearOutput e w) e' = [])))"
proof -
  have "trigger l \<longleftrightarrow>
      (\<exists>r. trim l = ''echo '' @ r) \<or> (\<exists>a b. trim l = a @ ''print'' @ b)
      \<or> CHR ''$'' \<in> set (trim l)"
    by (simp only: trigger_def Let_def includes_str_char)
       (simp only: startsWith_iff includes_str_iff)
  moreover have "timer_callback e w = Inr (clearOutput e w)"
    if "lineAt (document_of w e) (active_line (editors w e)) = Inr l" "\<not> trigger l"
    using that by (simp add: timer_callback_def)
  ultimately show ?thesis
    by (simp add: clearOutput_frame clearOutput_handles visible_clearOutput_inv)
qed

theorem trigger_heuristic_witness:
  "\<not> trigger ''<?php'' \<and> visible annotated_world 1 \<noteq> []
   \<and> timer_callback 0 annotated_world = Inr (clearOutput 0 annotated_world)
   \<and> procs (clearOutput 0 annotated_world) = procs annotated_world
   \<and> effects (clearOutput 0 annotated_world) = effects annotated_world
   \<and> visible (clearOutput 0 annotated_world) 1 = []"
proof -
  have l: "lineAt (document_of annotated_world 0) (active_line (editors annotated_world 0))
             = Inr ''<?php''"
    by (simp add: annotated_world_eq lineAt_def document_of_def example_defs)
  have t: "\<not> trigger ''<?php''"
    by (simp add: trigger_def trim_def isWhiteSpace_def)
  have i: "decoration_inv annotated_world"
    by (simp add: annotated_world_eq decoration_inv_def)
  have v: "visible annotated_world 1 \<noteq> []"
    by (simp add: annotated_world_eq visible_def)
  show ?thesis
    using trigger_heuristic [of "''<?php''" annotated_world 0] l t i v by simp
qed

section \<open>Live execution\<close>

lemma runPHPCode_saved:
  assumes "fsPath (document_of w e) \<noteq> []" "\<not> isUntitled (document_of w e)"
  shows "runPHPCode code e n w =
           exec (command_line (get_or (setting_phpPath (store w)) ''php'') (fsPath (document_of w e)))
             (LiveProc e n False (fsPath (document_of w e))) w"
  using assms by (simp add: runPHPCode_def Let_def)

lemma runPHPCode_temp:
  assumes "fsPath (document_of w e) = [] \<or> isUntitled (document_of w e)"
  shows "runPHPCode code e n w =
           exec (command_line (get_or (setting_phpPath (store w)) ''php'') (path_join w ''quickphp.php''))
             (LiveProc e n True (path_join w ''quickphp.php''))
             (log_effect (WriteFile (path_join w ''quickphp.php'')
                (''<?php'' @ [CHR 0x0A] @ code @ [CHR 0x0A] @ ''?>'')) w)"
  using assms by (auto simp add: runPHPCode_def Let_def log_effect_def)

lemma exec_fields:
  "effects (exec cmd p w) = effects w @ [Exec cmd]"
  "procs (exec cmd p w) = procs w @ [(next_pid w, p)]"
  by (simp_all add: exec_def log_effect_def)

lemma log_effect_fields:
  "effects (log_effect x w) = effects w @ [x]" "procs (log_effect x w) = procs w"
  "next_pid (log_effect x w) = next_pid w" "store (log_effect x w) = store w"
  by (simp_all add: log_effect_def)

text \<open>
  Claim C3. In live mode the timer callback passes the full text of the document to
  \<open>runPHPCode\<close>. For a document with a file path that is not untitled, the interpreter
  is spawned on that path and nothing is written. Otherwise the text, between an opening
  and a closing PHP tag, is written to \<^verbatim>\<open>quickphp.php\<close> in the directory of the
  extension, and the interpreter is spawned on that file.
\<close>
theorem live_mode_file:
  "(lineAt (document_of w e) (active_line (editors w e)) = Inr l \<and> trigger l \<longrightarrow>
      timer_callback e w =
        Inr (runPHPCode (getText (document_of w e)) e (active_line (editors w e)) w))
   \<and> (fsPath (document_of w e) \<noteq> [] \<and> \<not> isUntitled (document_of w e) \<longrightarrow>
        effects (runPHPCode code e n w) =
          effects w @ [Exec (get_or (setting_phpPath (store w)) ''php'' @ '' '' @ [CHR 0x22]
                             @ fsPath (document_of w e) @ [CHR 0x22])]
        \<and> procs (runPHPCode code e n w) =
            procs w @ [(next_pid w, LiveProc e n False (fsPath (document_of w e)))])
   \<and> (fsPath (document_of w e) = [] \<or> isUntitled (document_of w e) \<longrightarrow>
        effects (runPHPCode code e n w) =
          effects w @
          [WriteFile (dirname w @ sep w @ ''quickphp.php'')
             (''<?php'' @ [CHR 0x0A] @ code @ [CHR 0x0A] @ ''?>''),
           Exec (get_or (setting_phpPath (store w)) ''php'' @ '' '' @ [CHR 0x22]
                 @ dirname w @ sep w @ ''quickphp.php'' @ [CHR 0x22])]
        \<and> procs (runPHPCode code e n w) =
            procs w @ [(next_pid w, LiveProc e n True (dirname w @ sep w @ ''quickphp.php''))])"
proof -
  have a: "timer_callback e w =
        Inr (runPHPCode (getText (document_of w e)) e (active_line (editors w e)) w)"
    if "lineAt (document_of w e) (active_line (editors w e)) = Inr l" "trigger l"
    using that by (simp add: timer_callback_def)
  have b: "effects (runPHPCode code e n w) =
          effects w @ [Exec (get_or (setting_phpPath (store w)) ''php'' @ '' '' @ [CHR 0x22]
                             @ fsPath (document_of w e) @ [CHR 0x22])]
        \<and> procs (runPHPCode code e n w) =
            procs w @ [(next_pid w, LiveProc e n False (fsPath (document_of w e)))]"
    if "fsPath (document_of w e) \<noteq> []" "\<not> isUntitled (document_of w e)"
    using that by (simp add: runPHPCode_saved exec_fields command_line_def)
  have c: "effects (runPHPCode code e n w) =
          effects w @
          [WriteFile (dirname w @ sep w @ ''quickphp.php'')
             (''<?php'' @ [CHR 0x0A] @ code @ [CHR 0x0A] @ ''?>''),
           Exec (get_or (setting_phpPath (store w)) ''php'' @ '' '' @ [CHR 0x22]
                 @ dirname w @ sep w @ ''quickphp.php'' @ [CHR 0x22])]
        \<and> procs (runPHPCode code e n w) =
            procs w @ [(next_pid w, LiveProc e n True (dirname w @ sep w @ ''quickphp.php''))]"
    if "fsPath (document_of w e) = [] \<or> isUntitled (document_of w e)"
    using that
    by (simp add: runPHPCode_temp exec_fields log_effect_fields command_line_def path_join_def)
  from a b c show ?thesis by blast
qed

theorem live_mode_file_witness:
  "timer_callback 1 example_world = Inr (runPHPCode ''echo 2;'' 1 0 example_world)
   \<and> effects (runPHPCode ''echo $x;'' 0 1 example_world) =
       [Exec (''php '' @ [CHR 0x22] @ ''/home/u/a.php'' @ [CHR 0x22])]
   \<and> effects (runPHPCode ''echo 2;'' 1 0 example_world) =
       [WriteFile ''/ext/dist/quickphp.php'' (''<?php'' @ [CHR 0x0A] @ ''echo 2;'' @ [CHR 0x0A] @ ''?>''),
        Exec (''php '' @ [CHR 0x22] @ ''/ext/dist/quickphp.php'' @ [CHR 0x22])]"
proof -
  note untitled = live_mode_file [of example_world 1 "''echo 2;''" "''echo 2;''" 0]
  note saved = live_mode_file [of example_world 0 "''echo 2;''" "''echo $x;''" 1]
  have l: "lineAt (document_of example_world 1) (active_line (editors example_world 1))
             = Inr ''echo 2;''"
    by (simp add: lineAt_def document_of_def example_defs)
  have t: "trigger ''echo 2;''"
    by (simp add: trigger_def trim_def isWhiteSpace_def)
  have s: "fsPath (document_of example_world 0) \<noteq> [] \<and> \<not> isUntitled (document_of example_world 0)"
    by (simp add: document_of_def example_defs)
  have u: "fsPath (document_of example_world 1) = [] \<or> isUntitled (document_of example_world 1)"
    by (simp add: document_of_def example_defs)
  have v: "fsPath (document_of example_world 0) = ''/home/u/a.php''"
    "getText (document_of example_world 1) = ''echo 2;''"
    "get_or (setting_phpPath (store example_world)) ''php'' = ''php''"
    "effects example_world = []"
    "dirname example_world = ''/ext/dist''" "sep example_world = ''/''"
    "active_line (editors example_world 1) = 0"
    by (simp_all add: document_of_def example_defs getText_def get_or_def)
  from untitled l t
  have "timer_callback 1 example_world =
          Inr (runPHPCode (getText (document_of example_world 1)) 1
                 (active_line (editors example_world 1)) example_world)"
    by blast
  moreover from saved s
  have "effects (runPHPCode ''echo $x;'' 0 1 example_world) =
          effects example_world @
          [Exec (get_or (setting_phpPath (store example_world)) ''php'' @ '' '' @ [CHR 0x22]
                 @ fsPath (document_of example_world 0) @ [CHR 0x22])]"
    by blast
  moreover from untitled u
  have "effects (runPHPCode ''echo 2;'' 1 0 example_world) =
          effects example_world @
          [WriteFile (dirname example_world @ sep example_world @ ''quickphp.php'')
             (''<?php'' @ [CHR 0x0A] @ ''echo 2;'' @ [CHR 0x0A] @ ''?>''),
           Exec (get_or (setting_phpPath (store example_world)) ''php'' @ '' '' @ [CHR 0x22]
                 @ dirname example_world @ sep example_world @ ''quickphp.php'' @ [CHR 0x22])]"
    by blast
  ultimately show ?thesis unfolding v by simp
qed

section \<open>Presentation\<close>

lemma displayInlineOutput_blank:
  "trim output = [] \<Longrightarrow> displayInlineOutput output e n t b w = Inr w"
  by (simp add: displayInlineOutput_def)

lemma displayInlineOutput_shown:
  assumes "trim output \<noteq> []" "n < length (doc_lines (document_of w e))" "decoration_inv w"
  shows "\<exists>w'. displayInlineOutput output e n t b w = Inr w'
     \<and> visible w' e = [annotation w e n output t b]
     \<and> (\<forall>e'. e' \<noteq> e \<longrightarrow> visible w' e' = [])
     \<and> live_types w' = [next_handle w]
     \<and> currentDecorationType w' = Some (next_handle w)
     \<and> effects w' = effects w \<and> procs w' = procs w
     \<and> decoration_inv w'"
proof -
  let ?w1 = "clearOutput e w"
  have c: "live_types ?w1 = []" "decoration_inv ?w1" "document_of ?w1 e = document_of w e"
    "store ?w1 = store w" "next_handle ?w1 = next_handle w"
    using assms(3)
    by (simp_all add: clearOutput_live_inv clearOutput_inv document_of_clearOutput
        clearOutput_frame)
  have a: "\<forall>h e. length (applied ?w1 h e) \<le> 1"
    using c(2) by (simp add: decoration_inv_def)
  show ?thesis
    using assms(1,2) c a
    by (simp add: displayInlineOutput_def Let_def lineAt_def createTextEditorDecorationType_def
        setDecorations_def visible_def annotation_def decoration_inv_def clearOutput_frame
        document_of_def)
qed

lemma displayInlineOutput_illegal:
  assumes "trim output \<noteq> []" "\<not> n < length (doc_lines (document_of w e))"
  shows "displayInlineOutput output e n t b w = Inl (IllegalArgument, clearOutput e w)"
  using assms
  by (simp add: displayInlineOutput_def Let_def lineAt_def document_of_clearOutput)

lemma decoration_inv_log_effect [simp]: "decoration_inv (log_effect x w) = decoration_inv w"
  by (simp add: decoration_inv_def log_effect_def)

lemma visible_log_effect [simp]: "visible (log_effect x w) e = visible w e"
  by (simp add: visible_def log_effect_def)

lemma displayInlineOutput_inv:
  assumes "decoration_inv w"
  shows "decoration_inv (settle (displayInlineOutput output e n t b w))"
proof (cases "trim output = []")
  case True
  with assms show ?thesis by (simp add: displayInlineOutput_blank settle_def)
next
  case False
  show ?thesis
  proof (cases "n < length (doc_lines (document_of w e))")
    case True
    from displayInlineOutput_shown [OF False True assms, of t b]
    show ?thesis by (auto simp add: settle_def)
  next
    case False
    with \<open>trim output \<noteq> []\<close> assms show ?thesis
      by (simp add: displayInlineOutput_illegal settle_def clearOutput_inv)
  qed
qed

lemma trim_Error_prefix: "trim (''Error: '' @ m) \<noteq> []"
  by (simp add: trim_empty_iff isWhiteSpace_def)

lemma live_callback_failure:
  assumes "err \<noteq> None \<or> stderr \<noteq> []" "n < length (doc_lines (document_of w e))"
    "decoration_inv w"
  shows "\<exists>w'. live_callback e n isTemp fp err out stderr t w = Inr w'
     \<and> visible w' e = [annotation w e n (''Error: '' @ errorMessage isTemp fp err stderr) t True]
     \<and> (\<forall>e'. e' \<noteq> e \<longrightarrow> visible w' e' = [])
     \<and> effects w' = effects w @ (if isTemp then [Unlink fp] else [])
     \<and> procs w' = procs w \<and> decoration_inv w'"
proof -
  let ?w1 = "clearOutput e w"
  have n: "n < length (doc_lines (document_of ?w1 e))"
    using assms(2) by (simp add: document_of_clearOutput)
  have i: "decoration_inv ?w1" using assms(3) by (rule clearOutput_inv)
  from displayInlineOutput_shown [OF trim_Error_prefix n i, of "errorMessage isTemp fp err stderr" t True]
  obtain w' where w': "displayInlineOutput (''Error: '' @ errorMessage isTemp fp err stderr) e n t True ?w1 = Inr w'"
    "visible w' e = [annotation ?w1 e n (''Error: '' @ errorMessage isTemp fp err stderr) t True]"
    "\<forall>e'. e' \<noteq> e \<longrightarrow> visible w' e' = []"
    "effects w' = effects ?w1" "procs w' = procs ?w1" "decoration_inv w'"
    by blast
  have "annotation ?w1 e n x t True = annotation w e n x t True" for x
    by (simp add: annotation_def document_of_clearOutput clearOutput_frame)
  with w' assms(1) show ?thesis
    by (auto simp add: live_callback_def Let_def clearOutput_frame log_effect_def visible_def
        decoration_inv_def)
qed


lemma live_callback_blank:
  assumes "err = None" "stderr = []" "trim stdout = []"
  shows "live_callback e n isTemp fp err stdout stderr t w =
           Inr (if isTemp then log_effect (Unlink fp) (clearOutput e w) else clearOutput e w)"
proof -
  have "trim [] = []" by (simp add: trim_def)
  with assms(3) have "trim (trim stdout) = []" by simp
  with assms(1,2) show ?thesis
    by (simp add: live_callback_def displayInlineOutput_blank)
qed

lemma settle_finish_inv:
  assumes "decoration_inv (settle r)"
  shows "decoration_inv
           (settle (case r of Inl x \<Rightarrow> Inl x
                    | Inr w2 \<Rightarrow> Inr (if c then log_effect y w2 else w2)))"
  using assms by (cases r) (auto simp add: settle_def)

lemma live_callback_inv:
  assumes "decoration_inv w"
  shows "decoration_inv (settle (live_callback e n isTemp fp err stdout stderr t w))"
proof -
  have d: "decoration_inv (settle (displayInlineOutput x e n t b (clearOutput e w)))" for x b
    using assms by (simp add: displayInlineOutput_inv clearOutput_inv)
  show ?thesis
    unfolding live_callback_def Let_def
    by (rule settle_finish_inv) (simp add: d)
qed

lemma step_ExecDone_live:
  assumes "map_of (procs w) p = Some (LiveProc e n isTemp fp)"
  shows "step (ExecDone p err out serr t) w =
           settle (live_callback e n isTemp fp err out serr t
                     (w\<lparr>procs := filter (\<lambda>x. fst x \<noteq> p) (procs w)\<rparr>))"
  using assms by simp

lemma without_proc [simp]:
  "decoration_inv (w\<lparr>procs := ps\<rparr>) = decoration_inv w"
  "document_of (w\<lparr>procs := ps\<rparr>) e = document_of w e"
  "annotation (w\<lparr>procs := ps\<rparr>) e n x t b = annotation w e n x t b"
  by (simp_all add: decoration_inv_def document_of_def annotation_def)

lemma step_live_failure:
  assumes "map_of (procs w) p = Some (LiveProc e n isTemp fp)" "err \<noteq> None \<or> stderr \<noteq> []"
    "n < length (doc_lines (document_of w e))" "decoration_inv w"
  shows "visible (step (ExecDone p err out stderr t) w) e =
           [annotation w e n (''Error: '' @ errorMessage isTemp fp err stderr) t True]"
proof -
  let ?w1 = "w\<lparr>procs := filter (\<lambda>x. fst x \<noteq> p) (procs w)\<rparr>"
  have "n < length (doc_lines (document_of ?w1 e))" "decoration_inv ?w1"
    using assms(3,4) by simp_all
  from live_callback_failure [OF assms(2) this, of isTemp fp out t]
  show ?thesis
    unfolding step_ExecDone_live [OF assms(1)] by (auto simp add: settle_def)
qed


lemma step_live_blank:
  assumes "map_of (procs w) p = Some (LiveProc e n isTemp fp)" "trim stdout = []"
    "decoration_inv w"
  shows "visible (step (ExecDone p None stdout [] t) w) e' = []"
    "currentDecorationType (step (ExecDone p None stdout [] t) w) = None"
proof -
  let ?w1 = "w\<lparr>procs := filter (\<lambda>x. fst x \<noteq> p) (procs w)\<rparr>"
  have i: "decoration_inv ?w1" using assms(3) by simp
  have s: "step (ExecDone p None stdout [] t) w =
          (if isTemp then log_effect (Unlink fp) (clearOutput e ?w1) else clearOutput e ?w1)"
    by (simp only: step_ExecDone_live [OF assms(1)]
          live_callback_blank [OF refl refl assms(2)] settle_def sum.case)
  show "visible (step (ExecDone p None stdout [] t) w) e' = []"
    unfolding s using i by (simp add: visible_def clearOutput_live_inv log_effect_def)
  show "currentDecorationType (step (ExecDone p None stdout [] t) w) = None"
    unfolding s by (simp add: clearOutput_handles log_effect_def)
qed

section \<open>Evaluations on the example states\<close>

lemma pending_saved_facts:
  "map_of (procs pending_saved) 0 = Some (LiveProc 0 1 False ''/home/u/a.php'')"
  "1 < length (doc_lines (document_of pending_saved 0))"
  "decoration_inv pending_saved"
  by (simp_all add: pending_saved_def example_defs step_defs Let_def decoration_inv_def)

lemma pending_untitled_facts:
  "map_of (procs pending_untitled) 0 = Some (LiveProc 1 0 True ''/ext/dist/quickphp.php'')"
  "0 < length (doc_lines (document_of pending_untitled 1))"
  "decoration_inv pending_untitled"
  by (simp_all add: pending_untitled_def example_defs step_defs Let_def decoration_inv_def)


lemma pending_again_facts:
  "map_of (procs pending_again) 1 = Some (LiveProc 1 0 True ''/ext/dist/quickphp.php'')"
  "decoration_inv pending_again"
  "visible pending_again 1 =
     [\<lparr>dec_range = (0, 7, 0, 7), contentText = '' // 2 (Execution Time: 0.05s)'',
       color = ''grey''\<rparr>]"
  by (simp_all add: pending_again_def annotated_world_eq step_defs Let_def decoration_inv_def
      visible_def example_defs)

section \<open>A target line that is gone\<close>






section \<open>What is shown\<close>

text \<open>
  Claim C10. When a live execution fails (a spawn error, or text on standard error) and
  the target line is still a line of the document, the annotation shown starts with
  \<^verbatim>\<open>Error: \<close> twice: once put there by the completion callback, once more by
  \<open>displayInlineOutput\<close>; it is red.
\<close>
theorem failure_prefix_twice:
  assumes "map_of (procs w) p = Some (LiveProc e n isTemp fp)"
    and "err \<noteq> None \<or> stderr \<noteq> []"
    and "n < length (doc_lines (document_of w e))"
    and "decoration_inv w"
  shows "map contentText (visible (step (ExecDone p err out stderr t) w) e) =
           ['' // Error: Error: '' @ errorMessage isTemp fp err stderr
              @ '' (Execution Time: '' @ t @ ''s)'']
         \<and> map color (visible (step (ExecDone p err out stderr t) w) e) = [''red'']"
  unfolding step_live_failure [OF assms] by (simp add: annotation_def formattedOutput_def)

theorem failure_prefix_twice_witness:
  "map contentText
     (visible (step (ExecDone 0 None []
                 ''PHP Warning:  Undefined variable $x in /home/u/a.php on line 2'' ''0.04'')
               pending_saved) 0) =
     ['' // Error: Error: PHP Warning:  Undefined variable $x in /home/u/a.php on line 2 (Execution Time: 0.04s)'']
   \<and> map color
     (visible (step (ExecDone 0 None []
                 ''PHP Warning:  Undefined variable $x in /home/u/a.php on line 2'' ''0.04'')
               pending_saved) 0) = [''red'']"
proof -
  have m: "errorMessage False ''/home/u/a.php'' None
             ''PHP Warning:  Undefined variable $x in /home/u/a.php on line 2'' =
           ''PHP Warning:  Undefined variable $x in /home/u/a.php on line 2''"
    by (simp add: errorMessage_def or_else_def trim_def isWhiteSpace_def)
  show ?thesis
    using failure_prefix_twice [OF pending_saved_facts(1) _ pending_saved_facts(2,3),
        of None "''PHP Warning:  Undefined variable $x in /home/u/a.php on line 2''" "[]"
           "''0.04''"]
    unfolding m by simp
qed




text \<open>
  Claim C7. The presenter is called at two places only, each time right after
  \<open>clearOutput\<close>; the text of the failure branch starts with \<^verbatim>\<open>Error: \<close> and is never
  blank. Called there with blank text (empty, or white space only), the presenter stops
  without rendering, and no annotation exists: after a successful execution with blank
  output no editor shows an annotation, no decoration type is alive and
  \<open>currentDecorationType\<close> is unset.
\<close>
theorem blank_output:
  "((\<forall>c\<in>set output. isWhiteSpace c) \<and> decoration_inv w \<longrightarrow>
      displayInlineOutput output e n t b (clearOutput e w) = Inr (clearOutput e w)
      \<and> (\<forall>e'. visible (clearOutput e w) e' = [])
      \<and> live_types (clearOutput e w) = []
      \<and> currentDecorationType (clearOutput e w) = None)
   \<and> (map_of (procs w) p = Some (LiveProc e n isTemp fp) \<and> (\<forall>c\<in>set stdout. isWhiteSpace c)
        \<and> decoration_inv w \<longrightarrow>
        step (ExecDone p None stdout [] t) w =
          settle (case displayInlineOutput (trim stdout) e n t False
                         (clearOutput e (w\<lparr>procs := filter (\<lambda>x. fst x \<noteq> p) (procs w)\<rparr>)) of
                    Inl x \<Rightarrow> Inl x
                  | Inr w2 \<Rightarrow> Inr (if isTemp then log_effect (Unlink fp) w2 else w2))
        \<and> (\<forall>e'. visible (step (ExecDone p None stdout [] t) w) e' = [])
        \<and> live_types (step (ExecDone p None stdout [] t) w) = []
        \<and> currentDecorationType (step (ExecDone p None stdout [] t) w) = None)
   \<and> \<not> (\<forall>c\<in>set (''Error: '' @ m). isWhiteSpace c)"
proof -
  have a: "displayInlineOutput output e n t b (clearOutput e w) = Inr (clearOutput e w)
      \<and> (\<forall>e'. visible (clearOutput e w) e' = [])
      \<and> live_types (clearOutput e w) = []
      \<and> currentDecorationType (clearOutput e w) = None"
    if "\<forall>c\<in>set output. isWhiteSpace c" "decoration_inv w"
    using that
    by (simp add: displayInlineOutput_blank trim_empty_iff visible_clearOutput_inv
        clearOutput_live_inv clearOutput_handles)
  have b: "step (ExecDone p None stdout [] t) w =
          settle (case displayInlineOutput (trim stdout) e n t False
                         (clearOutput e (w\<lparr>procs := filter (\<lambda>x. fst x \<noteq> p) (procs w)\<rparr>)) of
                    Inl x \<Rightarrow> Inl x
                  | Inr w2 \<Rightarrow> Inr (if isTemp then log_effect (Unlink fp) w2 else w2))
        \<and> (\<forall>e'. visible (step (ExecDone p None stdout [] t) w) e' = [])
        \<and> live_types (step (ExecDone p None stdout [] t) w) = []
        \<and> currentDecorationType (step (ExecDone p None stdout [] t) w) = None"
    if m: "map_of (procs w) p = Some (LiveProc e n isTemp fp)"
      and s: "\<forall>c\<in>set stdout. isWhiteSpace c" and i: "decoration_inv w"
  proof -
    let ?w1 = "w\<lparr>procs := filter (\<lambda>x. fst x \<noteq> p) (procs w)\<rparr>"
    from s have tr: "trim stdout = []" by (simp add: trim_empty_iff)
    have i1: "decoration_inv ?w1" using i by simp
    have c: "step (ExecDone p None stdout [] t) w =
          settle (case displayInlineOutput (trim stdout) e n t False (clearOutput e ?w1) of
                    Inl x \<Rightarrow> Inl x
                  | Inr w2 \<Rightarrow> Inr (if isTemp then log_effect (Unlink fp) w2 else w2))"
      unfolding step_ExecDone_live [OF m] by (simp add: live_callback_def)
    have l: "live_types (step (ExecDone p None stdout [] t) w) = []"
      unfolding step_ExecDone_live [OF m] live_callback_blank [OF refl refl tr]
      using i1 by (simp add: settle_def clearOutput_live_inv log_effect_def)
    from c l step_live_blank [OF m tr i] show ?thesis by blast
  qed
  have c: "\<not> (\<forall>c\<in>set (''Error: '' @ m). isWhiteSpace c)"
    by (simp add: isWhiteSpace_def)
  from a b c show ?thesis by blast
qed

theorem blank_output_witness:
  "visible pending_again 1 =
     [\<lparr>dec_range = (0, 7, 0, 7), contentText = '' // 2 (Execution Time: 0.05s)'',
       color = ''grey''\<rparr>]
   \<and> displayInlineOutput '' '' 1 0 ''0.01'' False (clearOutput 1 pending_again) =
       Inr (clearOutput 1 pending_again)
   \<and> visible (clearOutput 1 pending_again) 1 = []
   \<and> visible (step (ExecDone 1 None '' '' [] ''0.01'') pending_again) 1 = []
   \<and> live_types (step (ExecDone 1 None '' '' [] ''0.01'') pending_again) = []
   \<and> currentDecorationType (step (ExecDone 1 None '' '' [] ''0.01'') pending_again) = None"
proof -
  have b: "\<forall>c\<in>set '' ''. isWhiteSpace c" by (simp add: isWhiteSpace_def)
  note inst = blank_output [of "'' ''" pending_again 1 0 "''0.01''" False 1 True
      "''/ext/dist/quickphp.php''" "'' ''"]
  from inst b pending_again_facts(2)
  have "displayInlineOutput '' '' 1 0 ''0.01'' False (clearOutput 1 pending_again) =
          Inr (clearOutput 1 pending_again)
        \<and> (\<forall>e'. visible (clearOutput 1 pending_again) e' = [])"
    by blast
  moreover from inst b pending_again_facts(1,2)
  have "(\<forall>e'. visible (step (ExecDone 1 None '' '' [] ''0.01'') pending_again) e' = [])
        \<and> live_types (step (ExecDone 1 None '' '' [] ''0.01'') pending_again) = []
        \<and> currentDecorationType (step (ExecDone 1 None '' '' [] ''0.01'') pending_again) = None"
    by blast
  ultimately show ?thesis using pending_again_facts(3) by blast
qed

text \<open>
  Claim C6, at an input where the code falls short of it. The untitled buffer of editor
  1 was run from the temporary file, and the interpreter reports two warnings, each
  naming that file. Only the first occurrence of the path is replaced: the annotation
  still shows the path of the temporary file.
\<close>

theorem second_path_occurrence_kept:
  "map contentText
     (visible (step (ExecDone 0 (Some ''Command failed'') []
                 (''Warning in /ext/dist/quickphp.php on line 1'' @ [CHR 0x0A]
                    @ ''Warning in /ext/dist/quickphp.php on line 2'') ''0.05'')
               pending_untitled) 1) =
     ['' // Error: Error: Warning in Current File on line 1'' @ [CHR 0x0A]
        @ ''Warning in /ext/dist/quickphp.php on line 2 (Execution Time: 0.05s)'']
   \<and> includes_str
        (errorMessage True ''/ext/dist/quickphp.php'' (Some ''Command failed'')
           (''Warning in /ext/dist/quickphp.php on line 1'' @ [CHR 0x0A]
              @ ''Warning in /ext/dist/quickphp.php on line 2''))
        ''/ext/dist/quickphp.php''"
proof -
  let ?S = "''Warning in /ext/dist/quickphp.php on line 1'' @ [CHR 0x0A]
              @ ''Warning in /ext/dist/quickphp.php on line 2''"
  have m: "errorMessage True ''/ext/dist/quickphp.php'' (Some ''Command failed'') ?S =
           ''Warning in Current File on line 1'' @ [CHR 0x0A]
             @ ''Warning in /ext/dist/quickphp.php on line 2''"
    by (simp add: errorMessage_def or_else_def trim_def isWhiteSpace_def)
  have v: "visible (step (ExecDone 0 (Some ''Command failed'') [] ?S ''0.05'') pending_untitled) 1 =
           [annotation pending_untitled 1 0
              (''Error: '' @ errorMessage True ''/ext/dist/quickphp.php'' (Some ''Command failed'') ?S)
              ''0.05'' True]"
    by (rule step_live_failure [OF pending_untitled_facts(1) _ pending_untitled_facts(2,3)]) simp
  show ?thesis
    unfolding v m by (simp add: annotation_def formattedOutput_def)
qed

section \<open>Block mode\<close>

lemma runSelectedBlock_blank:
  assumes "trim (selection_text (editors w e)) = []"
  shows "runSelectedBlock e w =
           w\<lparr>effects := effects w @ [ShowErrorMessage ''No PHP code selected to execute.'']\<rparr>"
  using assms by (simp add: runSelectedBlock_def log_effect_def)

lemma runSelectedBlock_run:
  assumes "trim (selection_text (editors w e)) \<noteq> []"
  shows "runSelectedBlock e w =
           exec (command_line (get_or (setting_phpPath (store w)) (phpPath defaultConfig))
                   (path_join w ''quickphp_block.php''))
             (BlockProc e (path_join w ''quickphp_block.php''))
             (log_effect (WriteFile (path_join w ''quickphp_block.php'')
                (selection_text (editors w e))) w)"
  using assms by (simp add: runSelectedBlock_def Let_def log_effect_def)

text \<open>
  Claim C9. A block-mode invocation on a selection that is empty or white space only
  shows the error message and does nothing else: no file is written and no process is
  spawned. On any other selection the selected text is written as it is to
  \<^verbatim>\<open>quickphp_block.php\<close> in the directory of the extension, a file other than the one of
  live mode, and the interpreter is spawned on it.
\<close>

theorem block_mode:
  "((\<forall>c\<in>set (selection_text (editors w e)). isWhiteSpace c) \<longrightarrow>
      runSelectedBlock e w =
        w\<lparr>effects := effects w @ [ShowErrorMessage ''No PHP code selected to execute.'']\<rparr>)
   \<and> (\<not> (\<forall>c\<in>set (selection_text (editors w e)). isWhiteSpace c) \<longrightarrow>
        effects (runSelectedBlock e w) =
          effects w @
          [WriteFile (dirname w @ sep w @ ''quickphp_block.php'') (selection_text (editors w e)),
           Exec (get_or (setting_phpPath (store w)) ''php'' @ '' '' @ [CHR 0x22]
                 @ dirname w @ sep w @ ''quickphp_block.php'' @ [CHR 0x22])]
        \<and> procs (runSelectedBlock e w) =
            procs w @ [(next_pid w, BlockProc e (dirname w @ sep w @ ''quickphp_block.php''))])
   \<and> dirname w @ sep w @ ''quickphp_block.php'' \<noteq> dirname w @ sep w @ ''quickphp.php''
   \<and> (activeTextEditor w = Some e \<longrightarrow> step RunBlockCommand w = runSelectedBlock e w)"
proof -
  have a: "runSelectedBlock e w =
        w\<lparr>effects := effects w @ [ShowErrorMessage ''No PHP code selected to execute.'']\<rparr>"
    if "\<forall>c\<in>set (selection_text (editors w e)). isWhiteSpace c"
    using that by (simp add: runSelectedBlock_blank trim_empty_iff)
  have b: "effects (runSelectedBlock e w) =
          effects w @
          [WriteFile (dirname w @ sep w @ ''quickphp_block.php'') (selection_text (editors w e)),
           Exec (get_or (setting_phpPath (store w)) ''php'' @ '' '' @ [CHR 0x22]
                 @ dirname w @ sep w @ ''quickphp_block.php'' @ [CHR 0x22])]
        \<and> procs (runSelectedBlock e w) =
            procs w @ [(next_pid w, BlockProc e (dirname w @ sep w @ ''quickphp_block.php''))]"
    if "\<not> (\<forall>c\<in>set (selection_text (editors w e)). isWhiteSpace c)"
  proof -
    from that have "trim (selection_text (editors w e)) \<noteq> []"
      by (simp add: trim_empty_iff)
    then show ?thesis
      by (simp add: runSelectedBlock_run exec_fields log_effect_fields command_line_def
          path_join_def defaultConfig_def)
  qed
  have c: "step RunBlockCommand w = runSelectedBlock e w" if "activeTextEditor w = Some e"
    using that by (simp add: runBlock_def)
  from a b c show ?thesis by simp
qed

lemma selection_facts:
  "selection_text (editors blank_selection 0) = [CHR 0x20, CHR 0x09]"
  "effects blank_selection = []" "procs blank_selection = []"
  "selection_text (editors block_selection 0) = ''echo 1;''"
  "effects block_selection = []" "dirname block_selection = ''/ext/dist''"
  "sep block_selection = ''/''"
  "get_or (setting_phpPath (store block_selection)) ''php'' = ''php''"
  "activeTextEditor block_selection = Some 0"
  by (simp_all add: blank_selection_def block_selection_def example_defs step_defs Let_def)

theorem block_mode_witness:
  "effects (runSelectedBlock 0 blank_selection) =
     [ShowErrorMessage ''No PHP code selected to execute.'']
   \<and> procs (runSelectedBlock 0 blank_selection) = []
   \<and> effects (step RunBlockCommand block_selection) =
       [WriteFile ''/ext/dist/quickphp_block.php'' ''echo 1;'',
        Exec (''php '' @ [CHR 0x22] @ ''/ext/dist/quickphp_block.php'' @ [CHR 0x22])]"
proof -
  note blank = block_mode [of blank_selection 0]
  note block = block_mode [of block_selection 0]
  have w: "\<forall>c\<in>set (selection_text (editors blank_selection 0)). isWhiteSpace c"
    by (simp add: selection_facts isWhiteSpace_def)
  have n: "\<not> (\<forall>c\<in>set (selection_text (editors block_selection 0)). isWhiteSpace c)"
    by (simp add: selection_facts isWhiteSpace_def)
  from blank w have "runSelectedBlock 0 blank_selection =
      blank_selection\<lparr>effects := effects blank_selection
         @ [ShowErrorMessage ''No PHP code selected to execute.'']\<rparr>"
    by blast
  then have 1: "effects (runSelectedBlock 0 blank_selection) =
     [ShowErrorMessage ''No PHP code selected to execute.'']"
    "procs (runSelectedBlock 0 blank_selection) = []"
    by (simp_all add: selection_facts)
  from block n have "effects (runSelectedBlock 0 block_selection) =
          effects block_selection @
          [WriteFile (dirname block_selection @ sep block_selection @ ''quickphp_block.php'')
             (selection_text (editors block_selection 0)),
           Exec (get_or (setting_phpPath (store block_selection)) ''php'' @ '' '' @ [CHR 0x22]
                 @ dirname block_selection @ sep block_selection @ ''quickphp_block.php''
                 @ [CHR 0x22])]"
    by blast
  moreover from block selection_facts(9)
  have "step RunBlockCommand block_selection = runSelectedBlock 0 block_selection"
    by blast
  ultimately have 2: "effects (step RunBlockCommand block_selection) =
       [WriteFile ''/ext/dist/quickphp_block.php'' ''echo 1;'',
        Exec (''php '' @ [CHR 0x22] @ ''/ext/dist/quickphp_block.php'' @ [CHR 0x22])]"
    unfolding selection_facts by simp
  from 1 2 show ?thesis by blast
qed

section \<open>The debounce delay\<close>

text \<open>
  Claim C8, at an input where the code falls short of it. The user has set
  \<^verbatim>\<open>quickphp.executionDelay\<close> to 1000; the timer is armed with the 300 of
  \<open>defaultConfig\<close> all the same: \<open>updateOutput\<close> never reads the settings store.
\<close>

theorem delay_ignores_setting:
  "setting_executionDelay (store example_world) = Some 1000
   \<and> timers (step (SelectionChange 0 0 []) example_world) = [(0, 300, 0)]
   \<and> timers (updateOutput e (w\<lparr>store := st\<rparr>)) = timers (updateOutput e w)"
  by (simp add: example_defs onDidChangeTextEditorSelection_def updateOutput_def
      clearTimeout_def setTimeout_def defaultConfig_def split: option.splits)

section \<open>One annotation at a time\<close>

lemma decoration_inv_frame:
  assumes "live_types w' = live_types w" "currentDecorationType w' = currentDecorationType w"
    "errorDecorationType w' = errorDecorationType w" "next_handle w' = next_handle w"
    "applied w' = applied w"
  shows "decoration_inv w' = decoration_inv w"
  using assms by (simp add: decoration_inv_def)

lemma updateOutput_decoration [simp]: "decoration_inv (updateOutput e w) = decoration_inv w"
  by (rule decoration_inv_frame)
     (simp_all add: updateOutput_def clearTimeout_def setTimeout_def split: option.splits)

lemma exec_decoration [simp]: "decoration_inv (exec cmd p w) = decoration_inv w"
  by (rule decoration_inv_frame) (simp_all add: exec_def log_effect_def)

lemma runPHPCode_decoration [simp]: "decoration_inv (runPHPCode code e n w) = decoration_inv w"
  by (simp add: runPHPCode_def Let_def)

lemma runSelectedBlock_decoration [simp]:
  "decoration_inv (runSelectedBlock e w) = decoration_inv w"
  by (simp add: runSelectedBlock_def Let_def)

lemma timer_callback_inv:
  "decoration_inv w \<Longrightarrow> decoration_inv (settle (timer_callback e w))"
  by (simp add: timer_callback_def settle_def Let_def clearOutput_inv split: sum.splits)

lemma block_callback_inv:
  "decoration_inv w \<Longrightarrow> decoration_inv (block_callback e f err out serr w)"
  by (simp add: block_callback_def Let_def clearOutput_inv)

lemma decoration_inv_host [simp]:
  "decoration_inv (w\<lparr>documents := ds\<rparr>) = decoration_inv w"
  "decoration_inv (w\<lparr>editors := es\<rparr>) = decoration_inv w"
  "decoration_inv (w\<lparr>activeTextEditor := a\<rparr>) = decoration_inv w"
  "decoration_inv (w\<lparr>timers := ts\<rparr>) = decoration_inv w"
  by (simp_all add: decoration_inv_def)

lemma step_inv: "decoration_inv w \<Longrightarrow> decoration_inv (step ev w)"
proof (cases ev)
  case (TextChange d ls)
  then show "decoration_inv w \<Longrightarrow> ?thesis"
    by (simp add: onDidChangeTextDocument_def split: option.splits)
next
  case (SelectionChange e l s)
  then show "decoration_inv w \<Longrightarrow> ?thesis"
    by (simp add: onDidChangeTextEditorSelection_def)
next
  case (ActiveEditorChange a)
  then show "decoration_inv w \<Longrightarrow> ?thesis" by simp
next
  case RunBlockCommand
  then show "decoration_inv w \<Longrightarrow> ?thesis"
    by (simp add: runBlock_def split: option.splits)
next
  case (TimerFire t)
  then show "decoration_inv w \<Longrightarrow> ?thesis"
    by (simp add: timer_callback_inv split: option.splits)
next
  case (ExecDone p err out serr t)
  then show "decoration_inv w \<Longrightarrow> ?thesis"
    by (simp add: live_callback_inv block_callback_inv Let_def split: option.splits proc.splits)
qed

lemma run_inv: "decoration_inv w \<Longrightarrow> decoration_inv (run evs w)"
  by (induction evs arbitrary: w) (simp_all add: step_inv)

lemma init_inv: "decoration_inv (init_world ds es a st dir sp)"
  by (simp add: decoration_inv_def init_world_def)

lemma inv_visible: "decoration_inv w \<Longrightarrow> length (visible w e) \<le> 1"
  by (auto simp add: decoration_inv_def visible_def split: option.splits)

lemma inv_live: "decoration_inv w \<Longrightarrow> length (live_types w) \<le> 1"
  by (auto simp add: decoration_inv_def split: option.splits)

lemma display_disposes_prior:
  assumes "decoration_inv w" "currentDecorationType w = Some h" "trim output \<noteq> []"
  shows "h \<notin> set (live_types (settle (displayInlineOutput output e n t b w)))"
proof (cases "n < length (doc_lines (document_of w e))")
  case True
  from assms(1,2) have "h < next_handle w" by (simp add: decoration_inv_def)
  with displayInlineOutput_shown [OF assms(3) True assms(1), of t b]
  show ?thesis by (auto simp add: settle_def)
next
  case False
  with assms show ?thesis
    by (simp add: displayInlineOutput_illegal settle_def clearOutput_live_inv log_effect_def)
qed

text \<open>
  Claim C5. In every state the extension reaches from its start, an editor shows at most
  one annotation and at most one decoration type is alive. When a new annotation is
  displayed, the decoration type held until then is disposed: it is not among the live
  ones afterwards.
\<close>
theorem one_annotation:
  "length (visible (run evs (init_world ds es a st dir sp)) e) \<le> 1
   \<and> length (live_types (run evs (init_world ds es a st dir sp))) \<le> 1
   \<and> (currentDecorationType (run evs (init_world ds es a st dir sp)) = Some h
        \<and> trim output \<noteq> [] \<longrightarrow>
        h \<notin> set (live_types (settle (displayInlineOutput output e n t b
                                        (run evs (init_world ds es a st dir sp))))))"
proof -
  have "decoration_inv (run evs (init_world ds es a st dir sp))"
    by (rule run_inv) (rule init_inv)
  from inv_visible [OF this, of e] inv_live [OF this]
    display_disposes_prior [OF this, of h "output" e n t b]
  show ?thesis by blast
qed

theorem one_annotation_witness:
  "visible annotated_world 1 =
     [\<lparr>dec_range = (0, 7, 0, 7), contentText = '' // 2 (Execution Time: 0.05s)'',
       color = ''grey''\<rparr>]
   \<and> currentDecorationType annotated_world = Some 0
   \<and> 0 \<notin> set (live_types (settle (displayInlineOutput ''3'' 1 0 ''0.01'' False annotated_world)))
   \<and> length (visible (settle (displayInlineOutput ''3'' 1 0 ''0.01'' False annotated_world)) 1) = 1"
proof -
  have r: "annotated_world =
             run [SelectionChange 1 0 [], TimerFire 0, ExecDone 0 None ''2'' [] ''0.05'']
               (init_world example_documents example_editors (Some 0)
                  \<lparr>setting_executionDelay = Some 1000, setting_phpPath = None,
                   setting_inlineColor = None\<rparr> ''/ext/dist'' ''/'')"
    by (simp only: annotated_world_def example_world_def)
  have c: "currentDecorationType annotated_world = Some 0"
    by (simp add: annotated_world_eq)
  have t: "trim ''3'' \<noteq> []" by (simp add: trim_def isWhiteSpace_def)
  from one_annotation [of "[SelectionChange 1 0 [], TimerFire 0, ExecDone 0 None ''2'' [] ''0.05'']"
      example_documents example_editors "Some 0"
      "\<lparr>setting_executionDelay = Some 1000, setting_phpPath = None, setting_inlineColor = None\<rparr>"
      "''/ext/dist''" "''/''" 1 0 "''3''" 0 "''0.01''" False, folded r] c t
  have "0 \<notin> set (live_types (settle (displayInlineOutput ''3'' 1 0 ''0.01'' False annotated_world)))"
    by blast
  moreover have "visible annotated_world 1 =
     [\<lparr>dec_range = (0, 7, 0, 7), contentText = '' // 2 (Execution Time: 0.05s)'',
       color = ''grey''\<rparr>]"
    by (simp add: annotated_world_eq visible_def)
  moreover have "length (visible (settle (displayInlineOutput ''3'' 1 0 ''0.01'' False annotated_world)) 1) = 1"
    using t
    by (simp add: annotated_world_eq displayInlineOutput_def settle_def clearOutput_def
        dispose_def setDecorations_def createTextEditorDecorationType_def lineAt_def
        document_of_def example_documents_def visible_def Let_def)
  ultimately show ?thesis using c by blast
qed

section \<open>Debouncing\<close>





lemma timer_inv_host [simp]:
  "timer_inv (w\<lparr>documents := ds\<rparr>) = timer_inv w"
  "timer_inv (w\<lparr>editors := es\<rparr>) = timer_inv w"
  "timer_inv (w\<lparr>activeTextEditor := a\<rparr>) = timer_inv w"
  "timer_inv (w\<lparr>procs := ps\<rparr>) = timer_inv w"
  by (simp_all add: timer_inv_def)


lemma exec_timers [simp]:
  "timers (exec cmd p w) = timers w" "timeout (exec cmd p w) = timeout w"
  "timers (log_effect x w) = timers w" "timeout (log_effect x w) = timeout w"
  by (simp_all add: exec_def log_effect_def)

lemma runPHPCode_timers [simp]:
  "timers (runPHPCode code e n w) = timers w" "timeout (runPHPCode code e n w) = timeout w"
  by (simp_all add: runPHPCode_def Let_def)

lemma runSelectedBlock_timers [simp]:
  "timers (runSelectedBlock e w) = timers w" "timeout (runSelectedBlock e w) = timeout w"
  by (simp_all add: runSelectedBlock_def Let_def)
















end
